theory Spec2Isabelle
  imports Main
begin

section \<open>gcomm configuration parameters: the helper templates of conf.hpp\<close>

text \<open>
  The header \<^verbatim>\<open>gcomm/conf.hpp\<close> declares the parameter keys (string constants without
  behaviour) and the templates that read one typed parameter out of a URI:
  \<^verbatim>\<open>_conf_param<T>\<close> and six wrappers around it. The templates are embedded here.
  The target type \<open>T\<close> is a type variable \<open>'a\<close> with the comparison operators the
  template uses (\<open>'a::ord\<close>); a pointer argument that may be null is an \<open>'a option\<close>.
\<close>

subsection \<open>What the template consumes\<close>

text \<open>
  Modelled from the spec: the class \<^verbatim>\<open>gu::URI\<close> (gu_uri.hpp) is not part of the sources.
  The template uses two of its members: \<^verbatim>\<open>get_option(key)\<close>, which returns the text stored
  under the key or raises \<^verbatim>\<open>gu::NotFound\<close> (here \<open>None\<close>), and \<^verbatim>\<open>to_string()\<close>, the text
  of the whole URI, which goes into an error message.
\<close>

record URI =
  get_option :: "string \<Rightarrow> string option"
  to_string :: string

text \<open>
  What the body of the \<^verbatim>\<open>try\<close> block can raise. \<^verbatim>\<open>_conf_param\<close> tells three kinds of
  exception apart: its handler names \<^verbatim>\<open>gu::NotFound\<close>, and its exception specification
  \<^verbatim>\<open>throw (gu::Exception)\<close> lets a \<^verbatim>\<open>gu::Exception\<close> (with some content \<open>'e\<close>) leave the
  function and no exception of any other class (\<open>Foreign\<close>; its content never reaches
  anyone). The converter \<^verbatim>\<open>gu::from_string<T>\<close> (not part of the sources) is an argument
  of the embedding: a function from the raw text to a value of \<open>'a\<close> or to what it
  raises.
\<close>

datatype 'e thrown = NotFound | Gu_Exception 'e | Foreign

type_synonym ('e, 'a) converter = "string \<Rightarrow> 'e thrown + 'a"

subsection \<open>What the template raises\<close>

text \<open>
  \<^verbatim>\<open>gu_throw_error(EINVAL) << a << b ...\<close> raises a \<^verbatim>\<open>gu::Exception\<close> with the error number
  and the message streamed into it. The message is kept as the list of the streamed
  operands, in order: string operands as \<open>Str\<close>, operands of the target type as \<open>Val\<close>.
  The outcomes of \<^verbatim>\<open>_conf_param\<close> other than a value are: a \<^verbatim>\<open>gu::Exception\<close> of the
  converter, which no handler catches and which leaves the function as it is
  (\<open>Uncaught\<close>); a \<^verbatim>\<open>gu::Exception\<close> raised by \<^verbatim>\<open>_conf_param\<close> itself (\<open>Exception\<close>); and
  the call of \<^verbatim>\<open>std::unexpected()\<close> when an exception that the exception specification
  does not allow is about to leave the function (\<open>Unexpected\<close>: by default the program
  terminates, and the exception does not reach the caller).
\<close>

datatype 'a item = Str string | Val 'a

definition EINVAL :: int where
  "EINVAL = 22"

datatype ('e, 'a) exn =
    Uncaught 'e
  | Exception int "'a item list"
  | Unexpected

text \<open>The three messages of \<^verbatim>\<open>_conf_param\<close>, operand by operand.\<close>

definition msg_not_found :: "string \<Rightarrow> URI \<Rightarrow> 'a item list" where
  "msg_not_found param uri =
     [Str ''param '', Str param, Str '' not found from uri '', Str (to_string uri)]"

definition msg_min :: "string \<Rightarrow> 'a \<Rightarrow> 'a \<Rightarrow> 'a item list" where
  "msg_min param ret min_value =
     [Str ''param '', Str param, Str '' value '', Val ret, Str '' out of range '',
      Str ''min allowed '', Val min_value]"

definition msg_max :: "string \<Rightarrow> 'a \<Rightarrow> 'a \<Rightarrow> 'a item list" where
  "msg_max param ret max_value =
     [Str ''param '', Str param, Str '' value '', Val ret, Str '' out of range '',
      Str ''max allowed '', Val max_value]"

subsection \<open>The primitive: \<^verbatim>\<open>_conf_param\<close>\<close>

text \<open>
  The \<^verbatim>\<open>try\<close> statement: the lookup and the conversion are both inside the \<^verbatim>\<open>try\<close> block, so
  \<^verbatim>\<open>gu::NotFound\<close> reaches the handler from either of them. The handler raises the
  "not found" error when the default pointer is null and takes the default otherwise.
  No other exception is caught: a \<^verbatim>\<open>gu::Exception\<close> of the converter goes on to the
  caller, and an exception of another class is stopped by the exception specification
  \<^verbatim>\<open>throw (gu::Exception)\<close> of the function. The result is the value of \<^verbatim>\<open>ret\<close> after the
  statement, or the way the function is left.
\<close>

definition try_from_string ::
  "('e, 'a) converter \<Rightarrow> URI \<Rightarrow> string \<Rightarrow> 'e thrown + 'a" where
  "try_from_string from_string uri param =
     (case get_option uri param of
        None \<Rightarrow> Inl NotFound
      | Some s \<Rightarrow> from_string s)"

definition catch_NotFound ::
  "('e, 'a) converter \<Rightarrow> URI \<Rightarrow> string \<Rightarrow> 'a option \<Rightarrow> ('e, 'a) exn + 'a" where
  "catch_NotFound from_string uri param default_value =
     (case try_from_string from_string uri param of
        Inr ret \<Rightarrow> Inr ret
      | Inl NotFound \<Rightarrow>
          (case default_value of
             None \<Rightarrow> Inl (Exception EINVAL (msg_not_found param uri))
           | Some d \<Rightarrow> Inr d)
      | Inl (Gu_Exception e) \<Rightarrow> Inl (Uncaught e)
      | Inl Foreign \<Rightarrow> Inl Unexpected)"

text \<open>
  The two range checks after the \<^verbatim>\<open>try\<close> statement:
  \<^verbatim>\<open>if (min_value != 0 && *min_value > ret)\<close> and \<^verbatim>\<open>if (max_value != 0 && *max_value < ret)\<close>.
  Each gives the exception it raises, if any. The operators \<^verbatim>\<open>>\<close> and \<^verbatim>\<open><\<close> of the target
  type are read as the one order \<open><\<close> of \<open>'a\<close> (\<open>m > ret\<close> is \<open>ret < m\<close>).
\<close>

definition check_min :: "string \<Rightarrow> 'a::ord \<Rightarrow> 'a option \<Rightarrow> ('e, 'a) exn option" where
  "check_min param ret min_value =
     (case min_value of
        None \<Rightarrow> None
      | Some m \<Rightarrow> if m > ret then Some (Exception EINVAL (msg_min param ret m)) else None)"

definition check_max :: "string \<Rightarrow> 'a::ord \<Rightarrow> 'a option \<Rightarrow> ('e, 'a) exn option" where
  "check_max param ret max_value =
     (case max_value of
        None \<Rightarrow> None
      | Some m \<Rightarrow> if m < ret then Some (Exception EINVAL (msg_max param ret m)) else None)"

text \<open>
  \<^verbatim>\<open>_conf_param\<close> (an Isabelle name cannot start with an underscore): the \<^verbatim>\<open>try\<close>
  statement, the minimum check, the maximum check, \<^verbatim>\<open>return ret\<close>.
\<close>

definition underscore_conf_param ::
  "('e, 'a::ord) converter \<Rightarrow> URI \<Rightarrow> string \<Rightarrow> 'a option \<Rightarrow> 'a option \<Rightarrow> 'a option
     \<Rightarrow> ('e, 'a) exn + 'a" where
  "underscore_conf_param from_string uri param default_value min_value max_value =
     (case catch_NotFound from_string uri param default_value of
        Inl x \<Rightarrow> Inl x
      | Inr ret \<Rightarrow>
          (case check_min param ret min_value of
             Some x \<Rightarrow> Inl x
           | None \<Rightarrow>
               (case check_max param ret max_value of
                  Some x \<Rightarrow> Inl x
                | None \<Rightarrow> Inr ret)))"

subsection \<open>The wrappers\<close>

text \<open>
  Five of the six wrappers call the primitive in a well-formed way: \<^verbatim>\<open>conf_param\<close> names
  the template argument (\<^verbatim>\<open>_conf_param<T>(uri, param, 0, 0, 0)\<close>), so its zeros are null
  pointers; the others leave \<open>T\<close> to deduction and pass addresses, leave a trailing
  parameter to its default, or pass \<^verbatim>\<open>reinterpret_cast<const T*>(0)\<close>
  (\<^verbatim>\<open>conf_param_def_max\<close>). Each of these is the function it instantiates to.
\<close>

definition conf_param :: "('e, 'a::ord) converter \<Rightarrow> URI \<Rightarrow> string \<Rightarrow> ('e, 'a) exn + 'a" where
  "conf_param from_string uri param =
     underscore_conf_param from_string uri param None None None"

definition conf_param_def ::
  "('e, 'a::ord) converter \<Rightarrow> URI \<Rightarrow> string \<Rightarrow> 'a \<Rightarrow> ('e, 'a) exn + 'a" where
  "conf_param_def from_string uri param default_value =
     underscore_conf_param from_string uri param (Some default_value) None None"

definition conf_param_def_min ::
  "('e, 'a::ord) converter \<Rightarrow> URI \<Rightarrow> string \<Rightarrow> 'a \<Rightarrow> 'a \<Rightarrow> ('e, 'a) exn + 'a" where
  "conf_param_def_min from_string uri param default_value min_value =
     underscore_conf_param from_string uri param (Some default_value) (Some min_value) None"

definition conf_param_def_max ::
  "('e, 'a::ord) converter \<Rightarrow> URI \<Rightarrow> string \<Rightarrow> 'a \<Rightarrow> 'a \<Rightarrow> ('e, 'a) exn + 'a" where
  "conf_param_def_max from_string uri param default_value max_value =
     underscore_conf_param from_string uri param (Some default_value) None (Some max_value)"

definition conf_param_def_range ::
  "('e, 'a::ord) converter \<Rightarrow> URI \<Rightarrow> string \<Rightarrow> 'a \<Rightarrow> 'a \<Rightarrow> 'a \<Rightarrow> ('e, 'a) exn + 'a" where
  "conf_param_def_range from_string uri param default_value min_value max_value =
     underscore_conf_param from_string uri param
       (Some default_value) (Some min_value) (Some max_value)"

text \<open>
  \<^verbatim>\<open>conf_param_range\<close> calls \<^verbatim>\<open>_conf_param(uri, param, 0, &min_value, &max_value)\<close>: it
  leaves \<open>T\<close> to deduction and passes the literal \<^verbatim>\<open>0\<close> for \<^verbatim>\<open>const T* default_value\<close>.
  Template argument deduction takes each argument by its type, before any conversion:
  the literal \<^verbatim>\<open>0\<close> is an \<^verbatim>\<open>int\<close>, which is no \<^verbatim>\<open>const T*\<close> for any \<open>T\<close>, so deduction fails
  and the call is ill-formed. The ways a wrapper writes a pointer argument of a call
  that leaves \<open>T\<close> to deduction:
\<close>

datatype 'a argument =
    Literal_zero
  | Typed_null
  | Address_of 'a
  | Defaulted

definition deducible :: "'a argument \<Rightarrow> bool" where
  "deducible a = (case a of Literal_zero \<Rightarrow> False | _ \<Rightarrow> True)"

definition pointer :: "'a argument \<Rightarrow> 'a option" where
  "pointer a = (case a of Address_of x \<Rightarrow> Some x | _ \<Rightarrow> None)"

text \<open>
  A call \<^verbatim>\<open>_conf_param(uri, param, d, lo, hi)\<close> without template argument: \<open>None\<close> when
  deduction fails (there is no function to call), the outcome of the primitive
  otherwise.
\<close>

definition deduced_call ::
  "('e, 'a::ord) converter \<Rightarrow> URI \<Rightarrow> string \<Rightarrow> 'a argument \<Rightarrow> 'a argument \<Rightarrow> 'a argument
     \<Rightarrow> (('e, 'a) exn + 'a) option" where
  "deduced_call from_string uri param d lo hi =
     (if deducible d \<and> deducible lo \<and> deducible hi
      then Some (underscore_conf_param from_string uri param (pointer d) (pointer lo) (pointer hi))
      else None)"

definition conf_param_range ::
  "('e, 'a::ord) converter \<Rightarrow> URI \<Rightarrow> string \<Rightarrow> 'a \<Rightarrow> 'a \<Rightarrow> (('e, 'a) exn + 'a) option" where
  "conf_param_range from_string uri param min_value max_value =
     deduced_call from_string uri param Literal_zero (Address_of min_value) (Address_of max_value)"

subsection \<open>Converters and URIs for the examples\<close>

text \<open>
  Modelled from the spec: \<^verbatim>\<open>gu::from_string<bool>\<close> is not part of the sources. The spec's
  converter accepts exactly the tokens "0" and "1" for a boolean. Which exception the
  converter raises on any other token is not fixed by the sources, so it is the
  argument \<open>failure\<close>.
\<close>

definition from_string_bool :: "'e thrown \<Rightarrow> ('e, bool) converter" where
  "from_string_bool failure s =
     (if s = ''0'' then Inr False else if s = ''1'' then Inr True else Inl failure)"

text \<open>
  Modelled from the spec: \<^verbatim>\<open>gu::from_string<T>\<close> for an integer \<open>T\<close> is not part of the
  sources. This converter reads a decimal numeral, an optional minus sign followed by
  at least one digit, into a 32-bit \<^verbatim>\<open>int\<close>, and raises \<open>failure\<close> on any other text and
  on a numeral out of the range of the type (integer overflow).
\<close>

fun position :: "char \<Rightarrow> string \<Rightarrow> nat option" where
  "position c [] = None"
| "position c (x # xs) = (if c = x then Some 0 else map_option Suc (position c xs))"

definition digit :: "char \<Rightarrow> nat option" where
  "digit c = position c ''0123456789''"

fun digits :: "nat \<Rightarrow> string \<Rightarrow> nat option" where
  "digits acc [] = Some acc"
| "digits acc (c # cs) =
     (case digit c of None \<Rightarrow> None | Some d \<Rightarrow> digits (10 * acc + d) cs)"

definition from_string_int :: "'e thrown \<Rightarrow> ('e, int) converter" where
  "from_string_int failure s =
     (case s of
        [] \<Rightarrow> Inl failure
      | c # cs \<Rightarrow>
          if c = CHR ''-''
          then (case cs of
                  [] \<Rightarrow> Inl failure
                | _ # _ \<Rightarrow>
                    (case digits 0 cs of
                       None \<Rightarrow> Inl failure
                     | Some n \<Rightarrow> if n \<le> 2147483648 then Inr (- int n) else Inl failure))
          else (case digits 0 s of
                  None \<Rightarrow> Inl failure
                | Some n \<Rightarrow> if n \<le> 2147483647 then Inr (int n) else Inl failure))"

text \<open>
  A URI given by its list of options, in the order they were written, and its text.
  Keys are unique in the store: of two options with one key the later one stays.
\<close>

definition uri_of :: "(string \<times> string) list \<Rightarrow> string \<Rightarrow> URI" where
  "uri_of opts text = \<lparr> get_option = map_of (rev opts), to_string = text \<rparr>"

definition uri_empty :: URI where
  "uri_empty = uri_of [] ''gcomm://''"

definition uri_x :: "string \<Rightarrow> URI" where
  "uri_x v = uri_of [(''x'', v)] (''gcomm://?x='' @ v)"

section \<open>Properties\<close>

subsection \<open>How a call unfolds\<close>

text \<open>The value of \<^verbatim>\<open>ret\<close> after the \<^verbatim>\<open>try\<close> statement, case by case.\<close>

lemma catch_present:
  "get_option uri param = Some raw \<Longrightarrow> from_string raw = Inr v \<Longrightarrow>
   catch_NotFound from_string uri param default_value = Inr v"
  by (simp add: catch_NotFound_def try_from_string_def)

lemma catch_absent_default:
  "get_option uri param = None \<Longrightarrow>
   catch_NotFound from_string uri param (Some d) = Inr d"
  by (simp add: catch_NotFound_def try_from_string_def)


lemma catch_present_Gu_Exception:
  "get_option uri param = Some raw \<Longrightarrow> from_string raw = Inl (Gu_Exception e) \<Longrightarrow>
   catch_NotFound from_string uri param default_value = Inl (Uncaught e)"
  by (simp add: catch_NotFound_def try_from_string_def)

lemma catch_present_Foreign:
  "get_option uri param = Some raw \<Longrightarrow> from_string raw = Inl Foreign \<Longrightarrow>
   catch_NotFound from_string uri param default_value = Inl Unexpected"
  by (simp add: catch_NotFound_def try_from_string_def)

lemma present_converted:
  "get_option uri param = Some raw \<Longrightarrow> from_string raw = Inr v \<Longrightarrow>
   underscore_conf_param from_string uri param default_value min_value max_value =
     (case check_min param v min_value of
        Some x \<Rightarrow> Inl x
      | None \<Rightarrow> (case check_max param v max_value of Some x \<Rightarrow> Inl x | None \<Rightarrow> Inr v))"
  by (simp add: underscore_conf_param_def catch_present)

text \<open>The URIs and converters of the examples, evaluated.\<close>

lemma get_option_uri_x: "get_option (uri_x v) ''x'' = Some v"
  by (simp add: uri_x_def uri_of_def)

lemma from_string_int_32: "from_string_int failure ''32'' = Inr 32"
  by (simp add: from_string_int_def digit_def)

lemma from_string_int_5: "from_string_int failure ''5'' = Inr 5"
  by (simp add: from_string_int_def digit_def)


lemma from_string_int_10: "from_string_int failure ''10'' = Inr 10"
  by (simp add: from_string_int_def digit_def)

lemma from_string_int_minus: "from_string_int failure ''-1000000'' = Inr (- 1000000)"
  by (simp add: from_string_int_def digit_def)

lemma from_string_bool_yes: "from_string_bool failure ''yes'' = Inl failure"
  by (simp add: from_string_bool_def)

subsection \<open>An absent key with a default\<close>

text \<open>
  C1, as the code has it. When the key is absent and a default \<open>D\<close> is supplied, the
  handler assigns \<^verbatim>\<open>ret = *default_value\<close> without any conversion (the converter
  \<open>from_string\<close> is arbitrary here and plays no part), and the two range checks that
  follow the \<^verbatim>\<open>try\<close> statement apply to \<open>D\<close> as they do to a converted value. A default
  below a supplied minimum raises the out-of-range error of the minimum check; a
  default that is not below a supplied minimum and is above a supplied maximum raises
  the out-of-range error of the maximum check; and the call returns \<open>D\<close> exactly when
  \<open>D\<close> is not below a supplied minimum and not above a supplied maximum.
\<close>

theorem c1_default_is_range_checked:
  "get_option uri param = None \<Longrightarrow>
   (\<forall>m. min_value = Some m \<and> m > D \<longrightarrow>
      underscore_conf_param from_string uri param (Some D) min_value max_value =
        Inl (Exception EINVAL (msg_min param D m))) \<and>
   (\<forall>h. (\<forall>m. min_value = Some m \<longrightarrow> \<not> m > D) \<and> max_value = Some h \<and> h < D \<longrightarrow>
      underscore_conf_param from_string uri param (Some D) min_value max_value =
        Inl (Exception EINVAL (msg_max param D h))) \<and>
   ((underscore_conf_param from_string uri param (Some D) min_value max_value = Inr D) =
    ((\<forall>m. min_value = Some m \<longrightarrow> \<not> m > D) \<and> (\<forall>h. max_value = Some h \<longrightarrow> \<not> h < D)))"
  by (cases min_value; cases max_value;
      simp add: underscore_conf_param_def catch_absent_default check_min_def check_max_def)

theorem c1_default_is_range_checked_witness:
  "get_option uri_empty ''x'' = None \<and>
   underscore_conf_param (from_string_int (NotFound :: unit thrown)) uri_empty ''x''
     (Some 5) (Some 1) (Some 10) = Inr 5 \<and>
   underscore_conf_param (from_string_int (NotFound :: unit thrown)) uri_empty ''x''
     (Some 0) (Some 1) (Some 10) = Inl (Exception EINVAL (msg_min ''x'' 0 1)) \<and>
   underscore_conf_param (from_string_int (NotFound :: unit thrown)) uri_empty ''x''
     (Some 50) (Some 1) (Some 10) = Inl (Exception EINVAL (msg_max ''x'' 50 10))"
proof -
  have absent: "get_option uri_empty ''x'' = None"
    by (simp add: uri_empty_def uri_of_def)
  have inside: "underscore_conf_param (from_string_int (NotFound :: unit thrown)) uri_empty ''x''
     (Some 5) (Some 1) (Some 10) = Inr 5"
    using c1_default_is_range_checked [OF absent,
        where from_string = "from_string_int (NotFound :: unit thrown)"
        and D = 5 and min_value = "Some 1" and max_value = "Some 10"]
    by simp
  have below: "underscore_conf_param (from_string_int (NotFound :: unit thrown)) uri_empty ''x''
     (Some 0) (Some 1) (Some 10) = Inl (Exception EINVAL (msg_min ''x'' 0 1))"
    using c1_default_is_range_checked [OF absent,
        where from_string = "from_string_int (NotFound :: unit thrown)"
        and D = 0 and min_value = "Some 1" and max_value = "Some 10"]
    by simp
  have above: "underscore_conf_param (from_string_int (NotFound :: unit thrown)) uri_empty ''x''
     (Some 50) (Some 1) (Some 10) = Inl (Exception EINVAL (msg_max ''x'' 50 10))"
    using c1_default_is_range_checked [OF absent,
        where from_string = "from_string_int (NotFound :: unit thrown)"
        and D = 50 and min_value = "Some 1" and max_value = "Some 10"]
    by simp
  from absent inside below above show ?thesis by blast
qed

text \<open>
  The statement that the default is returned whatever the bounds fails: with no
  options in the URI, the default 5 and the minimum 10, the call raises the
  out-of-range error of the minimum check.
\<close>

theorem c1_default_returned_unconditionally_counterexample:
  "get_option uri_empty ''x'' = None \<and>
   underscore_conf_param (from_string_int (NotFound :: unit thrown)) uri_empty ''x''
     (Some 5) (Some 10) None = Inl (Exception EINVAL (msg_min ''x'' 5 10)) \<and>
   underscore_conf_param (from_string_int (NotFound :: unit thrown)) uri_empty ''x''
     (Some 5) (Some 10) None \<noteq> Inr 5"
  by (simp add: underscore_conf_param_def catch_NotFound_def try_from_string_def
      check_min_def uri_empty_def uri_of_def)

subsection \<open>A present key whose text does not convert\<close>

text \<open>
  C2, as the code has it. \<^verbatim>\<open>_conf_param\<close> has no error of its own for a failed conversion.
  When the key is present and the converter raises \<open>t\<close> on its text, there are three
  cases. If \<open>t\<close> is \<^verbatim>\<open>gu::NotFound\<close>, the handler takes it as it takes an absent key: the
  outcome is that of the same call on the URI without the key. If \<open>t\<close> is a
  \<^verbatim>\<open>gu::Exception\<close>, it leaves \<^verbatim>\<open>_conf_param\<close> as it is (nothing is added to it, the key
  included). If \<open>t\<close> is of any other class, the exception specification of
  \<^verbatim>\<open>_conf_param\<close> stops it: \<^verbatim>\<open>std::unexpected()\<close> is called and no error reaches the caller.
\<close>

theorem c2_conversion_failure:
  "get_option uri param = Some raw \<Longrightarrow> from_string raw = Inl t \<Longrightarrow>
   underscore_conf_param from_string uri param default_value min_value max_value =
     (case t of
        NotFound \<Rightarrow>
          underscore_conf_param from_string
            (uri\<lparr>get_option := (get_option uri)(param := None)\<rparr>)
            param default_value min_value max_value
      | Gu_Exception e \<Rightarrow> Inl (Uncaught e)
      | Foreign \<Rightarrow> Inl Unexpected)"
  by (cases t; cases default_value)
     (simp_all add: underscore_conf_param_def catch_NotFound_def try_from_string_def
        msg_not_found_def)

theorem c2_conversion_failure_witness:
  "get_option (uri_x ''yes'') ''x'' = Some ''yes'' \<and>
   from_string_bool (Gu_Exception ''not a boolean'') ''yes'' =
     Inl (Gu_Exception ''not a boolean'') \<and>
   underscore_conf_param (from_string_bool (Gu_Exception ''not a boolean'')) (uri_x ''yes'')
     ''x'' (Some True) None None = Inl (Uncaught ''not a boolean'') \<and>
   from_string_bool (Foreign :: string thrown) ''yes'' = Inl Foreign \<and>
   underscore_conf_param (from_string_bool (Foreign :: string thrown)) (uri_x ''yes'')
     ''x'' (Some True) None None = Inl Unexpected"
proof -
  have present: "get_option (uri_x ''yes'') ''x'' = Some ''yes''"
    by (rule get_option_uri_x)
  have fails: "from_string_bool (Gu_Exception ''not a boolean'') ''yes'' =
      Inl (Gu_Exception ''not a boolean'')"
    by (rule from_string_bool_yes)
  have passes: "underscore_conf_param (from_string_bool (Gu_Exception ''not a boolean''))
      (uri_x ''yes'') ''x'' (Some True) None None = Inl (Uncaught ''not a boolean'')"
    using c2_conversion_failure
      [where from_string = "from_string_bool (Gu_Exception ''not a boolean'')",
        OF present fails]
    by simp
  have fails': "from_string_bool (Foreign :: string thrown) ''yes'' = Inl Foreign"
    by (rule from_string_bool_yes)
  have stopped: "underscore_conf_param (from_string_bool (Foreign :: string thrown))
      (uri_x ''yes'') ''x'' (Some True) None None = Inl Unexpected"
    using c2_conversion_failure
      [where from_string = "from_string_bool Foreign", OF present fails']
    by simp
  from present fails passes fails' stopped show ?thesis by blast
qed

text \<open>
  The statement that a failed conversion gives an error made by the resolver, with the
  key, the raw text and the reason, fails whichever way the converter signals its
  failure. On the option x=yes and the boolean converter: when the converter raises a
  \<^verbatim>\<open>gu::Exception\<close> of its own, that exception is the outcome, unchanged; when it raises
  \<^verbatim>\<open>gu::NotFound\<close> and a default is supplied, the call does not fail at all; when it
  raises an exception of another class, no error comes back from the call.
\<close>

theorem c2_invalid_value_counterexample:
  "get_option (uri_x ''yes'') ''x'' = Some ''yes'' \<and>
   underscore_conf_param (from_string_bool (Gu_Exception ''not a boolean'')) (uri_x ''yes'')
     ''x'' None None None = Inl (Uncaught ''not a boolean'') \<and>
   underscore_conf_param (from_string_bool (NotFound :: string thrown)) (uri_x ''yes'') ''x''
     (Some True) None None = Inr True \<and>
   underscore_conf_param (from_string_bool (Foreign :: string thrown)) (uri_x ''yes'') ''x''
     None None None = Inl Unexpected"
  by (simp add: underscore_conf_param_def catch_NotFound_def try_from_string_def
      check_min_def check_max_def get_option_uri_x from_string_bool_yes)

subsection \<open>An absent key without a default\<close>



subsection \<open>A present key without bounds\<close>

text \<open>
  C4. When the key is present, its text converts to \<open>v\<close> and neither bound is supplied,
  the call returns exactly \<open>v\<close>, whatever the default is. In particular, for a text
  \<open>raw\<close> that encodes \<open>v\<close> (one that the converter reads back as \<open>v\<close>), resolving
  \<open>raw\<close> gives \<open>v\<close> again: the option x=32 resolves to the integer 32.
\<close>

theorem c4_present_no_bounds:
  "get_option uri param = Some raw \<Longrightarrow> from_string raw = Inr v \<Longrightarrow>
   underscore_conf_param from_string uri param default_value None None = Inr v"
  by (simp add: underscore_conf_param_def catch_present check_min_def check_max_def)

theorem c4_present_no_bounds_witness:
  "get_option (uri_x ''32'') ''x'' = Some ''32'' \<and>
   from_string_int (NotFound :: unit thrown) ''32'' = Inr 32 \<and>
   underscore_conf_param (from_string_int (NotFound :: unit thrown)) (uri_x ''32'') ''x''
     None None None = Inr 32"
proof -
  have present: "get_option (uri_x ''32'') ''x'' = Some ''32''"
    by (rule get_option_uri_x)
  have converts: "from_string_int (NotFound :: unit thrown) ''32'' = Inr 32"
    by (rule from_string_int_32)
  from present converts
    c4_present_no_bounds [where from_string = "from_string_int NotFound", OF present converts]
  show ?thesis by blast
qed


subsection \<open>Below the minimum\<close>



subsection \<open>Above the maximum\<close>



subsection \<open>Equality with a bound\<close>

text \<open>
  C7. Both comparisons are strict, so the bounds are inclusive: when the key is present
  and its text converts to a value \<open>v\<close> that equals the supplied minimum or equals the
  supplied maximum, the call returns \<open>v\<close> and raises no error. The bounds are those a
  caller passes: where both are supplied, the minimum is at most the maximum. The order
  on the target type is a preorder: the statement needs \<open>v < v\<close> to be false.
\<close>

theorem c7_bounds_inclusive:
  fixes v :: "'a::preorder"
  shows "get_option uri param = Some raw \<Longrightarrow> from_string raw = Inr v \<Longrightarrow>
   min_value = Some v \<or> max_value = Some v \<Longrightarrow>
   (\<forall>l h. min_value = Some l \<longrightarrow> max_value = Some h \<longrightarrow> l \<le> h) \<Longrightarrow>
   underscore_conf_param from_string uri param default_value min_value max_value = Inr v"
  by (cases min_value; cases max_value)
     (auto simp add: present_converted check_min_def check_max_def less_le_not_le)

theorem c7_bounds_inclusive_witness:
  "get_option (uri_x ''5'') ''x'' = Some ''5'' \<and>
   from_string_int (NotFound :: unit thrown) ''5'' = Inr 5 \<and>
   underscore_conf_param (from_string_int (NotFound :: unit thrown)) (uri_x ''5'') ''x''
     None (Some 5) (Some 10) = Inr 5 \<and>
   get_option (uri_x ''10'') ''x'' = Some ''10'' \<and>
   from_string_int (NotFound :: unit thrown) ''10'' = Inr 10 \<and>
   underscore_conf_param (from_string_int (NotFound :: unit thrown)) (uri_x ''10'') ''x''
     None (Some 5) (Some 10) = Inr 10 \<and>
   (5 :: int) \<le> 10"
proof -
  have present5: "get_option (uri_x ''5'') ''x'' = Some ''5''"
    by (rule get_option_uri_x)
  have converts5: "from_string_int (NotFound :: unit thrown) ''5'' = Inr 5"
    by (rule from_string_int_5)
  have at_min: "Some (5 :: int) = Some 5 \<or> Some (10 :: int) = Some 5"
    by simp
  have present10: "get_option (uri_x ''10'') ''x'' = Some ''10''"
    by (rule get_option_uri_x)
  have converts10: "from_string_int (NotFound :: unit thrown) ''10'' = Inr 10"
    by (rule from_string_int_10)
  have at_max: "Some (5 :: int) = Some 10 \<or> Some (10 :: int) = Some 10"
    by simp
  have bounds: "(5 :: int) \<le> 10" by simp
  then have ordered:
    "\<forall>l h. Some (5 :: int) = Some l \<longrightarrow> Some (10 :: int) = Some h \<longrightarrow> l \<le> h"
    by simp
  from present5 converts5 present10 converts10 bounds
    c7_bounds_inclusive [where from_string = "from_string_int NotFound",
      OF present5 converts5 at_min ordered]
    c7_bounds_inclusive [where from_string = "from_string_int NotFound",
      OF present10 converts10 at_max ordered]
  show ?thesis by blast
qed

subsection \<open>The wrappers and the primitive\<close>

text \<open>
  The calls of the five well-formed wrappers, written with the arguments they pass:
  deduction succeeds for each, and the wrapper is the primitive with these pointers.
\<close>

lemma wrappers_well_formed:
  "conf_param from_string uri param =
     underscore_conf_param from_string uri param None None None"
  "deduced_call from_string uri param (Address_of d) Defaulted Defaulted =
     Some (conf_param_def from_string uri param d)"
  "deduced_call from_string uri param (Address_of d) (Address_of lo) Defaulted =
     Some (conf_param_def_min from_string uri param d lo)"
  "deduced_call from_string uri param (Address_of d) Typed_null (Address_of hi) =
     Some (conf_param_def_max from_string uri param d hi)"
  "deduced_call from_string uri param (Address_of d) (Address_of lo) (Address_of hi) =
     Some (conf_param_def_range from_string uri param d lo hi)"
  by (simp_all add: deduced_call_def deducible_def pointer_def conf_param_def
      conf_param_def_def conf_param_def_min_def conf_param_def_max_def
      conf_param_def_range_def)

text \<open>
  C8, where the code departs from it. The with-range wrapper \<^verbatim>\<open>conf_param_range\<close> is not
  the primitive called with its minimum and maximum: its call passes the literal \<^verbatim>\<open>0\<close>
  for the default pointer, deduction of \<open>T\<close> fails, and the wrapper has no outcome for
  any converter, URI, key and bounds. The same call with a null pointer of the pointer
  type in place of the literal, as \<^verbatim>\<open>conf_param_def_max\<close> writes it, is the primitive
  without default and with both bounds.
\<close>

theorem c8_conf_param_range_ill_formed:
  "conf_param_range from_string uri param lo hi = None \<and>
   conf_param_range from_string uri param lo hi \<noteq>
     Some (underscore_conf_param from_string uri param None (Some lo) (Some hi)) \<and>
   deduced_call from_string uri param Typed_null (Address_of lo) (Address_of hi) =
     Some (underscore_conf_param from_string uri param None (Some lo) (Some hi))"
  by (simp add: conf_param_range_def deduced_call_def deducible_def pointer_def)

subsection \<open>The default when the key is present\<close>

text \<open>
  C9, as the code has it. When the key is present and the converter does not raise
  \<^verbatim>\<open>gu::NotFound\<close> on its text (it converts the text, or raises another exception), the
  default has no influence: two calls that differ in the default only have the same
  outcome.
\<close>

theorem c9_default_irrelevant_when_present:
  "get_option uri param = Some raw \<Longrightarrow> from_string raw \<noteq> Inl NotFound \<Longrightarrow>
   underscore_conf_param from_string uri param d1 min_value max_value =
   underscore_conf_param from_string uri param d2 min_value max_value"
proof (cases "from_string raw")
  case (Inr v)
  assume "get_option uri param = Some raw"
  with Inr show ?thesis by (simp add: present_converted)
next
  case (Inl t)
  assume present: "get_option uri param = Some raw"
    and "from_string raw \<noteq> Inl NotFound"
  with Inl consider e where "t = Gu_Exception e" | "t = Foreign" by (cases t) simp_all
  then show ?thesis
  proof cases
    case 1
    with Inl present show ?thesis
      by (simp add: underscore_conf_param_def catch_present_Gu_Exception)
  next
    case 2
    with Inl present show ?thesis
      by (simp add: underscore_conf_param_def catch_present_Foreign)
  qed
qed

theorem c9_default_irrelevant_when_present_witness:
  "get_option (uri_x ''32'') ''x'' = Some ''32'' \<and>
   from_string_int (NotFound :: unit thrown) ''32'' \<noteq> Inl NotFound \<and>
   underscore_conf_param (from_string_int (NotFound :: unit thrown)) (uri_x ''32'') ''x''
     (Some 1) None None =
   underscore_conf_param (from_string_int (NotFound :: unit thrown)) (uri_x ''32'') ''x''
     (Some 2) None None"
proof -
  have present: "get_option (uri_x ''32'') ''x'' = Some ''32''"
    by (rule get_option_uri_x)
  have converts: "from_string_int (NotFound :: unit thrown) ''32'' \<noteq> Inl NotFound"
    by (simp add: from_string_int_32)
  from present converts
    c9_default_irrelevant_when_present [where from_string = "from_string_int NotFound",
      OF present converts]
  show ?thesis by blast
qed

text \<open>
  The \<^verbatim>\<open>try\<close> block holds the call of the converter as well as the lookup, so a
  converter that signals a malformed text by \<^verbatim>\<open>gu::NotFound\<close> reaches the handler, and
  the handler takes the default. Then the default decides the outcome although the key
  is present: on the option x=yes the defaults false and true are both returned.
\<close>

theorem c9_default_irrelevant_when_present_counterexample:
  "get_option (uri_x ''yes'') ''x'' = Some ''yes'' \<and>
   underscore_conf_param (from_string_bool (NotFound :: unit thrown)) (uri_x ''yes'') ''x''
     (Some False) None None = Inr False \<and>
   underscore_conf_param (from_string_bool (NotFound :: unit thrown)) (uri_x ''yes'') ''x''
     (Some True) None None = Inr True \<and>
   underscore_conf_param (from_string_bool (NotFound :: unit thrown)) (uri_x ''yes'') ''x''
     (Some False) None None \<noteq>
   underscore_conf_param (from_string_bool (NotFound :: unit thrown)) (uri_x ''yes'') ''x''
     (Some True) None None"
  by (simp add: underscore_conf_param_def catch_NotFound_def try_from_string_def
      check_min_def check_max_def get_option_uri_x from_string_bool_yes)

subsection \<open>The default-and-maximum wrapper\<close>

text \<open>
  C10. \<^verbatim>\<open>conf_param_def_max\<close> passes a null minimum pointer. Whatever its arguments are,
  its outcome is never the out-of-range error of the minimum check (for any key, value
  and bound in that error); and a value that is not above the maximum is returned,
  however small it is, whether it was converted from the text of a present key or is
  the default taken for an absent key.
\<close>

theorem c10_def_max_no_minimum_check:
  "conf_param_def_max from_string uri param d hi \<noteq> Inl (Exception n (msg_min p v m)) \<and>
   (get_option uri param = Some raw \<longrightarrow> from_string raw = Inr v' \<longrightarrow> \<not> hi < v' \<longrightarrow>
      conf_param_def_max from_string uri param d hi = Inr v') \<and>
   (get_option uri param = None \<longrightarrow> \<not> hi < d \<longrightarrow>
      conf_param_def_max from_string uri param d hi = Inr d)"
proof (intro conjI impI)
  show "conf_param_def_max from_string uri param d hi \<noteq> Inl (Exception n (msg_min p v m))"
    by (simp add: conf_param_def_max_def underscore_conf_param_def catch_NotFound_def
        try_from_string_def check_min_def check_max_def msg_min_def msg_max_def
        split: option.splits sum.splits thrown.splits)
next
  assume "get_option uri param = Some raw" "from_string raw = Inr v'" "\<not> hi < v'"
  then show "conf_param_def_max from_string uri param d hi = Inr v'"
    by (simp add: conf_param_def_max_def present_converted check_min_def check_max_def)
next
  assume "get_option uri param = None" "\<not> hi < d"
  then show "conf_param_def_max from_string uri param d hi = Inr d"
    by (simp add: conf_param_def_max_def underscore_conf_param_def catch_absent_default
        check_min_def check_max_def)
qed

theorem c10_def_max_no_minimum_check_witness:
  "get_option (uri_x ''-1000000'') ''x'' = Some ''-1000000'' \<and>
   from_string_int (NotFound :: unit thrown) ''-1000000'' = Inr (- 1000000) \<and>
   \<not> (10 :: int) < - 1000000 \<and>
   conf_param_def_max (from_string_int (NotFound :: unit thrown)) (uri_x ''-1000000'') ''x''
     0 10 = Inr (- 1000000)"
proof -
  have present: "get_option (uri_x ''-1000000'') ''x'' = Some ''-1000000''"
    by (rule get_option_uri_x)
  have converts: "from_string_int (NotFound :: unit thrown) ''-1000000'' = Inr (- 1000000)"
    by (rule from_string_int_minus)
  have not_above: "\<not> (10 :: int) < - 1000000" by simp
  from present converts not_above
    c10_def_max_no_minimum_check [where from_string = "from_string_int NotFound"
      and uri = "uri_x ''-1000000''" and param = "''x''" and d = 0 and hi = 10
      and raw = "''-1000000''" and v' = "- 1000000"]
  show ?thesis by blast
qed

end
